theory Spec2Isabelle
  imports Complex_Main
begin

section \<open>The car simulator: data model\<close>

text \<open>
  The component \<open>CarSimulator\<close> keeps a car state, a table of control flags and some
  frame bookkeeping in mutable references, and advances the car once per animation
  frame. JavaScript numbers are modelled as \<^typ>\<open>real\<close>; infinities and NaN are left
  out, and rounding is treated where exact equality depends on it, in the binary64
  reading of the steering update. \<open>Math.PI\<close> is \<^term>\<open>pi\<close>,
  \<open>Math.abs\<close> is \<^term>\<open>abs\<close>, \<open>Math.sign\<close> is \<^term>\<open>sgn\<close>, \<open>Math.min\<close> is \<^term>\<open>min\<close>.
\<close>

datatype ControlKey = Throttle | Brake | Left | Right | Reverse

record CarState =
  x :: real
  y :: real
  velocity :: real
  heading :: real
  steering :: real

record Telemetry =
  speed :: real
  headingDeg :: real
  acceleration :: real

text \<open>\<open>Record<ControlKey, boolean>\<close>: one flag per control.\<close>

type_synonym Controls = "ControlKey \<Rightarrow> bool"

definition CANVAS_WIDTH :: real where "CANVAS_WIDTH = 720"
definition CANVAS_HEIGHT :: real where "CANVAS_HEIGHT = 480"
definition MAX_SPEED :: real where "MAX_SPEED = 22"
definition MAX_REVERSE_SPEED :: real where "MAX_REVERSE_SPEED = - 6"
definition ACCELERATION :: real where "ACCELERATION = 8"
definition BRAKE_FORCE :: real where "BRAKE_FORCE = 14"
definition ROLLING_RESISTANCE :: real where "ROLLING_RESISTANCE = 2"
definition TURN_RATE :: real where "TURN_RATE = pi"
definition STEERING_SMOOTHING :: real where "STEERING_SMOOTHING = 4"
definition PUBLISH_INTERVAL :: real where "PUBLISH_INTERVAL = 120"

lemmas constants =
  CANVAS_WIDTH_def CANVAS_HEIGHT_def MAX_SPEED_def MAX_REVERSE_SPEED_def ACCELERATION_def
  BRAKE_FORCE_def ROLLING_RESISTANCE_def TURN_RATE_def STEERING_SMOOTHING_def
  PUBLISH_INTERVAL_def

definition INITIAL_STATE :: CarState where
  "INITIAL_STATE =
     \<lparr>x = CANVAS_WIDTH / 2, y = CANVAS_HEIGHT / 2, velocity = 0, heading = - pi / 2,
      steering = 0\<rparr>"

text \<open>The initial value of \<open>controlsRef\<close>, also written on loss of visibility.\<close>

definition noControls :: Controls where
  "noControls = (\<lambda>control. False)"

section \<open>The simulation step\<close>

text \<open>
  The body of \<open>renderFrame\<close> between reading the controls and storing the car is a pure
  function of the car, the elapsed seconds and the controls. It is written here as a
  chain of phases, one per block of statements and in the source's order, so that each
  phase touches few fields: the steering target and update (lines 197 to 203), the net
  acceleration (205 to 221), the velocity (223 to 234), the heading (236 and 237), the
  position (239 and 240) and the boundary tests (242 to 245).
\<close>

definition intendedSteer :: "Controls \<Rightarrow> real" where
  "intendedSteer controls =
     (if controls Left = controls Right then 0 else if controls Left then - 1 else 1)"

text \<open>
  The accumulation of \<open>acceleration\<close>, statement by statement. \<open>car.velocity || 1\<close> is
  \<open>1\<close> when the velocity is zero and the velocity otherwise.
\<close>

definition netAcceleration :: "Controls \<Rightarrow> real \<Rightarrow> real" where
  "netAcceleration controls v =
     (let acceleration = 0;
          acceleration =
            (if controls Throttle then acceleration + ACCELERATION else acceleration);
          acceleration =
            (if controls Reverse then acceleration - ACCELERATION * 0.6 else acceleration);
          acceleration =
            (if controls Brake \<and> v > 0 then acceleration - BRAKE_FORCE
             else if controls Brake then acceleration - ACCELERATION
             else acceleration);
          resistance = ROLLING_RESISTANCE * sgn (if v = 0 then 1 else v);
          friction = - resistance
      in acceleration + friction)"

text \<open>Steering update: the target and the smoothing step.\<close>

definition updateSteering :: "CarState \<Rightarrow> real \<Rightarrow> Controls \<Rightarrow> CarState" where
  "updateSteering car dt controls =
     (let steerDelta = intendedSteer controls - steering car
      in car\<lparr>steering := steering car + steerDelta * min (STEERING_SMOOTHING * dt) 1\<rparr>)"

text \<open>
  Velocity integration, the two clamps, and the snap to rest; \<open>accel\<close> is the value of
  the source's variable \<open>acceleration\<close> at that point.
\<close>

definition integrateVelocity :: "CarState \<Rightarrow> real \<Rightarrow> Controls \<Rightarrow> real \<Rightarrow> CarState" where
  "integrateVelocity car0 dt controls accel =
     (let car = car0\<lparr>velocity := velocity car0 + accel * dt\<rparr>;
          car = (if velocity car > MAX_SPEED then car\<lparr>velocity := MAX_SPEED\<rparr> else car);
          car = (if velocity car < MAX_REVERSE_SPEED
                 then car\<lparr>velocity := MAX_REVERSE_SPEED\<rparr> else car)
      in if \<not> controls Throttle \<and> \<not> controls Reverse \<and> \<bar>velocity car\<bar> < 0.2
            \<and> \<bar>accel\<bar> < 0.5
         then car\<lparr>velocity := 0\<rparr> else car)"

text \<open>Heading integration, scaled by the speed fraction after the velocity update.\<close>

definition integrateHeading :: "CarState \<Rightarrow> real \<Rightarrow> CarState" where
  "integrateHeading car dt =
     (let turnIntensity = min (\<bar>velocity car\<bar> / MAX_SPEED) 1
      in car\<lparr>heading := heading car + steering car * TURN_RATE * dt * turnIntensity\<rparr>)"

text \<open>Position integration along the new heading.\<close>

definition integratePosition :: "CarState \<Rightarrow> real \<Rightarrow> CarState" where
  "integratePosition car0 dt =
     (let car = car0\<lparr>x := x car0 + cos (heading car0) * velocity car0 * dt * 60\<rparr>
      in car\<lparr>y := y car + sin (heading car) * velocity car * dt * 60\<rparr>)"

text \<open>The four boundary tests, in the source's order.\<close>

definition clampPosition :: "CarState \<Rightarrow> CarState" where
  "clampPosition car0 =
     (let car = (if x car0 < 24 then car0\<lparr>x := 24\<rparr> else car0);
          car = (if x car > CANVAS_WIDTH - 24 then car\<lparr>x := CANVAS_WIDTH - 24\<rparr> else car);
          car = (if y car < 24 then car\<lparr>y := 24\<rparr> else car)
      in if y car > CANVAS_HEIGHT - 24 then car\<lparr>y := CANVAS_HEIGHT - 24\<rparr> else car)"

text \<open>
  One step: the new car and the acceleration used. The acceleration is computed from
  the velocity before integration.
\<close>

definition step :: "CarState \<Rightarrow> real \<Rightarrow> Controls \<Rightarrow> CarState \<times> real" where
  "step car0 dt controls =
     (let car = updateSteering car0 dt controls;
          acceleration = netAcceleration controls (velocity car);
          car = integrateVelocity car dt controls acceleration;
          car = integrateHeading car dt;
          car = integratePosition car dt;
          car = clampPosition car
      in (car, acceleration))"

text \<open>Repeated frames with the same elapsed time and the same controls held.\<close>

fun steps :: "nat \<Rightarrow> CarState \<Rightarrow> real \<Rightarrow> Controls \<Rightarrow> CarState" where
  "steps 0 car dt controls = car"
| "steps (Suc n) car dt controls = steps n (fst (step car dt controls)) dt controls"

text \<open>
  The car states the component can hold. \<open>carStateRef\<close> is written in three places only:
  with a copy of \<open>INITIAL_STATE\<close> when the component is created and on reset, and with
  the car of a step at the end of a frame. So every car the step receives is the initial
  one driven through some list of frames, each with its elapsed time and its controls.
\<close>

fun drive :: "(real \<times> Controls) list \<Rightarrow> CarState \<Rightarrow> CarState" where
  "drive [] car = car"
| "drive ((dt, controls) # frames) car = drive frames (fst (step car dt controls))"

section \<open>The steering update in binary64\<close>







section \<open>Frames, telemetry and reset\<close>

text \<open>
  The remainder operator \<open>%\<close> of JavaScript truncates the quotient towards zero, so the
  result has the sign of the dividend. The divisor is never zero where it is used.
\<close>

definition js_rem :: "real \<Rightarrow> real \<Rightarrow> real" where
  "js_rem a b = a - b * of_int (if a / b < 0 then \<lceil>a / b\<rceil> else \<lfloor>a / b\<rfloor>)"

text \<open>The object passed to \<open>setTelemetry\<close> in \<open>renderFrame\<close>.\<close>

definition publishedTelemetry :: "CarState \<Rightarrow> real \<Rightarrow> Telemetry" where
  "publishedTelemetry car accel =
     \<lparr>speed = \<bar>velocity car\<bar> * 3.6,
      headingDeg = js_rem ((heading car * 180) / pi + 360) 360,
      acceleration = accel\<rparr>"

text \<open>
  The references and the state that the simulation reads and writes: those of
  \<open>CarSimulator\<close>, and the state \<open>isActive\<close> of the \<open>ControlButton\<close> of each control.
\<close>

record Simulation =
  carStateRef :: CarState
  controlsRef :: Controls
  lastFrameRef :: "real option"
  lastPublishRef :: real
  telemetry :: Telemetry
  isActive :: Controls

definition applyControl :: "ControlKey \<Rightarrow> bool \<Rightarrow> Controls \<Rightarrow> Controls" where
  "applyControl control active controls = controls(control := active)"

text \<open>The controls of the five buttons, in the order of the list \<open>controlButtons\<close>.\<close>

definition controlButtons :: "ControlKey list" where
  "controlButtons = [Throttle, Brake, Reverse, Left, Right]"

text \<open>
  What follows every call of \<open>setTelemetry\<close>. The call stores a new object, so
  \<open>CarSimulator\<close> renders again; the rendering hands each \<open>ControlButton\<close> a new function
  \<open>onChange\<close> (line 379), and since \<open>onChange\<close> is a dependency of the button's effect
  (lines 425 to 427) the effect runs and calls \<open>applyControl\<close> with the button's control
  and its \<open>isActive\<close>.
\<close>

definition rerender :: "Simulation \<Rightarrow> Simulation" where
  "rerender sim =
     sim\<lparr>controlsRef :=
           fold (\<lambda>control controls. applyControl control (isActive sim control) controls)
             controlButtons (controlsRef sim)\<rparr>"

text \<open>
  One animation frame at \<open>timestamp\<close> (milliseconds). \<open>canvasReady\<close> says whether the
  canvas and its 2D context exist; without them the frame returns at once. Drawing reads
  the car only and is left out. A frame that publishes telemetry makes the component
  render again.
\<close>

definition renderFrame :: "bool \<Rightarrow> real \<Rightarrow> Simulation \<Rightarrow> Simulation" where
  "renderFrame canvasReady timestamp sim0 =
     (if \<not> canvasReady then sim0
      else
        let dt = (case lastFrameRef sim0 of
                    None \<Rightarrow> 0
                  | Some previousFrame \<Rightarrow> (timestamp - previousFrame) / 1000);
            sim = sim0\<lparr>lastFrameRef := Some timestamp\<rparr>;
            stepped = step (carStateRef sim) dt (controlsRef sim);
            sim = sim\<lparr>carStateRef := fst stepped\<rparr>
        in if timestamp - lastPublishRef sim > PUBLISH_INTERVAL
           then rerender
                  (sim\<lparr>lastPublishRef := timestamp,
                       telemetry := publishedTelemetry (fst stepped) (snd stepped)\<rparr>)
           else sim)"

text \<open>The values the references and states are created with.\<close>

definition initialSimulation :: Simulation where
  "initialSimulation =
     \<lparr>carStateRef = INITIAL_STATE, controlsRef = noControls, lastFrameRef = None,
      lastPublishRef = 0, telemetry = \<lparr>speed = 0, headingDeg = 0, acceleration = 0\<rparr>,
      isActive = noControls\<rparr>"

definition resetSimulation :: "Simulation \<Rightarrow> Simulation" where
  "resetSimulation sim =
     rerender
       (sim\<lparr>carStateRef := INITIAL_STATE, lastFrameRef := None,
            telemetry := \<lparr>speed = 0, headingDeg = 0, acceleration = 0\<rparr>\<rparr>)"

section \<open>Keyboard input\<close>

text \<open>
  The table from key codes to controls; a code that is not in it has no entry, and
  \<open>handleKey\<close> returns before touching the flags.
\<close>

definition KEY_MAP :: "string \<Rightarrow> ControlKey option" where
  "KEY_MAP =
     map_of
       [(''ArrowUp'', Throttle), (''KeyW'', Throttle), (''ArrowDown'', Brake),
        (''KeyS'', Reverse), (''ArrowLeft'', Left), (''KeyA'', Left),
        (''ArrowRight'', Right), (''KeyD'', Right), (''KeyX'', Brake)]"

text \<open>A key event: the code of the physical key, and whether it went down.\<close>

definition handleKey :: "string \<Rightarrow> bool \<Rightarrow> Controls \<Rightarrow> Controls" where
  "handleKey code isDown controls =
     (case KEY_MAP code of
        None \<Rightarrow> controls
      | Some controlKey \<Rightarrow> applyControl controlKey isDown controls)"

text \<open>The same on the component: a key event writes \<open>controlsRef\<close> and nothing else.\<close>

definition keyEvent :: "string \<Rightarrow> bool \<Rightarrow> Simulation \<Rightarrow> Simulation" where
  "keyEvent code isDown sim = sim\<lparr>controlsRef := handleKey code isDown (controlsRef sim)\<rparr>"

text \<open>
  A short session: a first frame at 16 ms, the key W goes down, a second frame at 32 ms.
  Neither frame publishes telemetry.
\<close>

definition heldKeySession :: Simulation where
  "heldKeySession =
     renderFrame True 32 (keyEvent ''KeyW'' True (renderFrame True 16 initialSimulation))"

fun handleKeys :: "(string \<times> bool) list \<Rightarrow> Controls \<Rightarrow> Controls" where
  "handleKeys [] controls = controls"
| "handleKeys ((code, isDown) # events) controls =
     handleKeys events (handleKey code isDown controls)"

text \<open>
  What the specification asks of the flags, in its own words: the keys currently held
  after a sequence of events, and the logical OR over the held keys mapped to a control.
\<close>

fun heldKeys :: "(string \<times> bool) list \<Rightarrow> string list \<Rightarrow> string list" where
  "heldKeys [] held = held"
| "heldKeys ((code, isDown) # events) held =
     heldKeys events (if isDown then code # removeAll code held else removeAll code held)"

definition orOverHeld :: "string list \<Rightarrow> ControlKey \<Rightarrow> bool" where
  "orOverHeld held control = list_ex (\<lambda>code. KEY_MAP code = Some control) held"

text \<open>
  What the flags do hold: whether the latest event of a key mapped to the control was a
  key-down, if there was one.
\<close>

fun lastEventFor :: "ControlKey \<Rightarrow> (string \<times> bool) list \<Rightarrow> bool option" where
  "lastEventFor control [] = None"
| "lastEventFor control ((code, isDown) # events) =
     (case lastEventFor control events of
        Some d \<Rightarrow> Some d
      | None \<Rightarrow> if KEY_MAP code = Some control then Some isDown else None)"

section \<open>Field by field: what each phase changes\<close>

lemma updateSteering_fields:
  "x (updateSteering car dt c) = x car"
  "y (updateSteering car dt c) = y car"
  "velocity (updateSteering car dt c) = velocity car"
  "heading (updateSteering car dt c) = heading car"
  "steering (updateSteering car dt c) =
     steering car + (intendedSteer c - steering car) * min (STEERING_SMOOTHING * dt) 1"
  by (simp_all add: updateSteering_def Let_def)

lemma integrateVelocity_fields:
  "x (integrateVelocity car dt c a) = x car"
  "y (integrateVelocity car dt c a) = y car"
  "heading (integrateVelocity car dt c a) = heading car"
  "steering (integrateVelocity car dt c a) = steering car"
  by (simp_all add: integrateVelocity_def Let_def)

lemma integrateVelocity_velocity:
  "velocity (integrateVelocity car dt c a) =
     (let v = velocity car + a * dt;
          v = (if v > 22 then 22 else v);
          v = (if v < - 6 then - 6 else v)
      in if \<not> c Throttle \<and> \<not> c Reverse \<and> \<bar>v\<bar> < 0.2 \<and> \<bar>a\<bar> < 0.5 then 0 else v)"
  by (simp add: integrateVelocity_def Let_def MAX_SPEED_def MAX_REVERSE_SPEED_def)

lemma integrateVelocity_bounds:
  "MAX_REVERSE_SPEED \<le> velocity (integrateVelocity car dt c a)"
  "velocity (integrateVelocity car dt c a) \<le> MAX_SPEED"
  by (simp_all add: integrateVelocity_def Let_def MAX_SPEED_def MAX_REVERSE_SPEED_def)

lemma integrateHeading_fields:
  "x (integrateHeading car dt) = x car"
  "y (integrateHeading car dt) = y car"
  "velocity (integrateHeading car dt) = velocity car"
  "steering (integrateHeading car dt) = steering car"
  "heading (integrateHeading car dt) =
     heading car + steering car * TURN_RATE * dt * min (\<bar>velocity car\<bar> / MAX_SPEED) 1"
  by (simp_all add: integrateHeading_def Let_def)

lemma integratePosition_fields:
  "velocity (integratePosition car dt) = velocity car"
  "steering (integratePosition car dt) = steering car"
  "heading (integratePosition car dt) = heading car"
  "x (integratePosition car dt) = x car + cos (heading car) * velocity car * dt * 60"
  "y (integratePosition car dt) = y car + sin (heading car) * velocity car * dt * 60"
  by (simp_all add: integratePosition_def Let_def)

lemma clampPosition_fields:
  "velocity (clampPosition car) = velocity car"
  "steering (clampPosition car) = steering car"
  "heading (clampPosition car) = heading car"
  by (simp_all add: clampPosition_def Let_def)

lemma clampPosition_x:
  "x (clampPosition car) = (if x car < 24 then 24 else if x car > 696 then 696 else x car)"
  by (simp add: clampPosition_def Let_def CANVAS_WIDTH_def)

lemma clampPosition_y:
  "y (clampPosition car) = (if y car < 24 then 24 else if y car > 456 then 456 else y car)"
  by (simp add: clampPosition_def Let_def CANVAS_HEIGHT_def)

lemma clampPosition_id:
  assumes "24 \<le> x car" "x car \<le> CANVAS_WIDTH - 24" "24 \<le> y car" "y car \<le> CANVAS_HEIGHT - 24"
  shows "clampPosition car = car"
  using assms by (simp add: clampPosition_def Let_def)

section \<open>One step, field by field\<close>

lemma step_fst:
  "fst (step car dt c) =
     clampPosition (integratePosition (integrateHeading
       (integrateVelocity (updateSteering car dt c) dt c (netAcceleration c (velocity car)))
       dt) dt)"
  by (simp add: step_def Let_def updateSteering_fields)

lemma step_acceleration: "snd (step car dt c) = netAcceleration c (velocity car)"
  by (simp add: step_def Let_def updateSteering_fields)

lemma step_steering:
  "steering (fst (step car dt c)) =
     steering car + (intendedSteer c - steering car) * min (STEERING_SMOOTHING * dt) 1"
  by (simp add: step_fst clampPosition_fields integratePosition_fields integrateHeading_fields
      integrateVelocity_fields updateSteering_fields)

lemma step_velocity:
  "velocity (fst (step car dt c)) =
     velocity (integrateVelocity (updateSteering car dt c) dt c
       (netAcceleration c (velocity car)))"
  by (simp add: step_fst clampPosition_fields integratePosition_fields integrateHeading_fields)

lemma step_heading:
  "heading (fst (step car dt c)) =
     heading car + steering (fst (step car dt c)) * TURN_RATE * dt
       * min (\<bar>velocity (fst (step car dt c))\<bar> / MAX_SPEED) 1"
  by (simp add: step_fst clampPosition_fields integratePosition_fields integrateHeading_fields
      integrateVelocity_fields updateSteering_fields)

lemma netAcceleration_closed:
  "netAcceleration c v =
     (if c Throttle then 8 else 0) - (if c Reverse then 4.8 else 0)
     - (if c Brake then (if v > 0 then 14 else 8) else 0)
     - 2 * (if v < 0 then - 1 else 1)"
  by (simp add: netAcceleration_def Let_def constants sgn_if)

text \<open>
  With throttle and reverse released the net acceleration is one of \<open>- 2\<close>, \<open>2\<close>,
  \<open>- 16\<close>, \<open>- 10\<close> and \<open>- 6\<close>: the rolling resistance alone has magnitude 2. The last
  conjunct of the snap-to-rest test is therefore false whenever the first two hold, and
  the assignment \<open>car.velocity = 0\<close> is never executed.
\<close>

lemma snap_guard_false:
  "\<not> c Throttle \<Longrightarrow> \<not> c Reverse \<Longrightarrow> \<not> \<bar>netAcceleration c v\<bar> < 0.5"
  by (simp add: netAcceleration_closed)

lemma step_velocity_closed:
  "velocity (fst (step car dt c)) =
     (let a = netAcceleration c (velocity car);
          v = velocity car + a * dt;
          v = (if v > 22 then 22 else v)
      in if v < - 6 then - 6 else v)"
proof (cases "\<not> c Throttle \<and> \<not> c Reverse")
  case True
  then show ?thesis
    using snap_guard_false[of c "velocity car"]
    by (simp add: step_velocity integrateVelocity_velocity updateSteering_fields Let_def)
next
  case False
  then show ?thesis
    by (auto simp add: step_velocity integrateVelocity_velocity updateSteering_fields Let_def)
qed

text \<open>A car at rest does not stay at rest: the resistance computed with sign \<open>+1\<close> moves it.\<close>

lemma netAcceleration_rest_nonzero: "netAcceleration c 0 \<noteq> 0"
  by (simp add: netAcceleration_closed)

lemma rest_is_left:
  assumes "velocity car = 0" "0 < dt"
  shows "velocity (fst (step car dt c)) \<noteq> 0"
proof -
  have "netAcceleration c 0 * dt \<noteq> 0"
    using assms(2) netAcceleration_rest_nonzero by simp
  then show ?thesis by (simp add: step_velocity_closed assms(1) Let_def)
qed

lemma idle_rest_goes_backwards:
  assumes "velocity car = 0" "0 < dt" "\<not> c Throttle" "\<not> c Reverse"
  shows "velocity (fst (step car dt c)) < 0"
  using assms by (simp add: step_velocity_closed netAcceleration_closed Let_def)

lemma steps_Suc_right: "steps (Suc n) car dt c = fst (step (steps n car dt c) dt c)"
  by (induction n arbitrary: car) simp_all

lemma idle_velocity:
  "velocity (fst (step car dt noControls)) =
     (let v = velocity car - 2 * (if velocity car < 0 then - 1 else 1) * dt;
          v = (if v > 22 then 22 else v)
      in if v < - 6 then - 6 else v)"
  by (simp add: step_velocity_closed netAcceleration_closed noControls_def Let_def)

lemma idle_steps_velocity:
  "velocity (steps (Suc n) car dt noControls) =
     (let v = velocity (steps n car dt noControls)
               - 2 * (if velocity (steps n car dt noControls) < 0 then - 1 else 1) * dt;
          v = (if v > 22 then 22 else v)
      in if v < - 6 then - 6 else v)"
  by (simp only: steps_Suc_right idle_velocity)

section \<open>Net acceleration\<close>

text \<open>
  Claim C8. In every step the acceleration used is the sum of independent
  contributions: plus 8 when throttle is held, minus 4.8 when reverse is held, minus 14
  when brake is held and the velocity before the step is positive or minus 8 when brake
  is held and that velocity is not positive, and minus a rolling resistance of
  magnitude 2 that opposes the sign of that velocity, the sign being taken as \<open>+1\<close> at
  velocity zero. The contributions add up, whichever flags are held together.
\<close>

theorem step_acceleration_formula:
  "snd (step car dt c) =
     (if c Throttle then ACCELERATION else 0)
     - (if c Reverse then 0.6 * ACCELERATION else 0)
     - (if c Brake then (if velocity car > 0 then BRAKE_FORCE else ACCELERATION) else 0)
     - ROLLING_RESISTANCE * (if velocity car < 0 then - 1 else 1)
   \<and> ACCELERATION = 8 \<and> 0.6 * ACCELERATION = 4.8 \<and> BRAKE_FORCE = 14
   \<and> ROLLING_RESISTANCE = 2"
  by (simp add: step_acceleration netAcceleration_closed constants)

section \<open>Bounds on velocity, steering and position\<close>

lemma smoothing_bounds:
  fixes s t k :: real
  assumes "- 1 \<le> s" "s \<le> 1" "- 1 \<le> t" "t \<le> 1" "0 \<le> k" "k \<le> 1"
  shows "- 1 \<le> s + (t - s) * k" "s + (t - s) * k \<le> 1"
proof -
  have eq: "s + (t - s) * k = (1 - k) * s + k * t"
    by (simp add: algebra_simps)
  have "(1 - k) * s \<le> (1 - k) * 1"
    using assms by (intro mult_left_mono) simp_all
  moreover have "k * t \<le> k * 1"
    using assms by (intro mult_left_mono) simp_all
  ultimately show "s + (t - s) * k \<le> 1"
    unfolding eq by simp
  have "(1 - k) * (- 1) \<le> (1 - k) * s"
    using assms by (intro mult_left_mono) simp_all
  moreover have "k * (- 1) \<le> k * t"
    using assms by (intro mult_left_mono) simp_all
  ultimately show "- 1 \<le> s + (t - s) * k"
    unfolding eq by simp
qed

lemma intendedSteer_range: "- 1 \<le> intendedSteer c" "intendedSteer c \<le> 1"
  by (simp_all add: intendedSteer_def)

text \<open>
  Claim C5. For every input state with steering in \<open>[-1, 1]\<close>, every \<open>dt \<ge> 0\<close> and
  every combination of control flags, the state after one step has its velocity in
  \<open>[MAX_REVERSE_SPEED, MAX_SPEED]\<close> and its steering in \<open>[-1, 1]\<close>. The bound on the
  velocity needs nothing of the input velocity, so the claim's hypothesis on it is not
  used.
\<close>

theorem step_bounds:
  assumes "- 1 \<le> steering car" "steering car \<le> 1" "0 \<le> dt"
  shows "MAX_REVERSE_SPEED \<le> velocity (fst (step car dt c)) \<and>
         velocity (fst (step car dt c)) \<le> MAX_SPEED \<and>
         - 1 \<le> steering (fst (step car dt c)) \<and> steering (fst (step car dt c)) \<le> 1"
proof -
  have k: "0 \<le> min (STEERING_SMOOTHING * dt) 1" "min (STEERING_SMOOTHING * dt) 1 \<le> 1"
    using assms(3) by (simp_all add: STEERING_SMOOTHING_def)
  show ?thesis
    using smoothing_bounds[OF assms(1,2) intendedSteer_range k]
    by (simp add: step_velocity integrateVelocity_bounds step_steering)
qed

theorem step_bounds_witness:
  "(- 1 \<le> steering INITIAL_STATE \<and> steering INITIAL_STATE \<le> 1 \<and> (0::real) \<le> 1 / 60) \<and>
   MAX_REVERSE_SPEED
     \<le> velocity (fst (step INITIAL_STATE (1 / 60) (noControls(Throttle := True, Left := True)))) \<and>
   velocity (fst (step INITIAL_STATE (1 / 60) (noControls(Throttle := True, Left := True))))
     \<le> MAX_SPEED \<and>
   - 1 \<le> steering (fst (step INITIAL_STATE (1 / 60) (noControls(Throttle := True, Left := True)))) \<and>
   steering (fst (step INITIAL_STATE (1 / 60) (noControls(Throttle := True, Left := True)))) \<le> 1"
  using step_bounds[of INITIAL_STATE "1 / 60" "noControls(Throttle := True, Left := True)"]
  by (simp add: INITIAL_STATE_def)

text \<open>
  Claim C6. For every input state, also one whose position starts outside the safe
  rectangle, every \<open>dt\<close> and every combination of control flags, the state after one
  step has \<open>x\<close> in \<open>[24, CANVAS_WIDTH - 24] = [24, 696]\<close> and \<open>y\<close> in
  \<open>[24, CANVAS_HEIGHT - 24] = [24, 456]\<close>.
\<close>

theorem step_position_clamped:
  "24 \<le> x (fst (step car dt c)) \<and> x (fst (step car dt c)) \<le> CANVAS_WIDTH - 24 \<and>
   24 \<le> y (fst (step car dt c)) \<and> y (fst (step car dt c)) \<le> CANVAS_HEIGHT - 24 \<and>
   CANVAS_WIDTH - 24 = 696 \<and> CANVAS_HEIGHT - 24 = 456"
  by (simp add: step_fst clampPosition_x clampPosition_y constants)

section \<open>Steering saturation\<close>

text \<open>
  Over the reals a step of a quarter of a second or more puts the steering on its
  target: the smoothing factor \<open>min (STEERING_SMOOTHING * dt) 1\<close> is 1.
\<close>

lemma steering_reaches_target_real:
  assumes "1 / STEERING_SMOOTHING \<le> dt"
  shows "steering (fst (step car dt c)) = intendedSteer c"
proof -
  have "1 \<le> STEERING_SMOOTHING * dt"
    using assms by (simp add: STEERING_SMOOTHING_def)
  then have "min (STEERING_SMOOTHING * dt) 1 = 1"
    by simp
  then show ?thesis
    by (simp add: step_steering)
qed

subsection \<open>Rounding to binary64\<close>


































subsection \<open>A steering value that misses its target\<close>
















section \<open>Heading and speed\<close>

text \<open>
  Claim C2, as stated: with velocity 0 and steering 1 on entry, the heading after one
  step equals the heading before it, for every \<open>dt \<ge> 0\<close> and all control flags. It
  fails: the turn intensity is computed from the velocity after this step's
  integration. With throttle and right held for a tenth of a second the car reaches
  velocity \<open>0.6\<close> within the step and turns by \<open>1 * pi * 0.1 * (0.6 / 22)\<close>.
\<close>

theorem heading_changes_from_rest:
  "heading (fst (step \<lparr>x = 360, y = 240, velocity = 0, heading = 0, steering = 1\<rparr> (1 / 10)
       (noControls(Throttle := True, Right := True))))
   \<noteq> heading \<lparr>x = 360, y = 240, velocity = 0, heading = 0, steering = 1\<rparr>"
  by (simp add: step_heading step_velocity_closed step_steering netAcceleration_closed
      intendedSteer_def noControls_def constants Let_def)

text \<open>
  Claim C2, amended. For every state, every \<open>dt\<close> and all control flags, one step adds
  \<open>steering' * TURN_RATE * dt * min (\<bar>velocity'\<bar> / MAX_SPEED) 1\<close> to the heading, where
  \<open>steering'\<close> and \<open>velocity'\<close> are the values after this step's steering and velocity
  updates. So the heading does not change when the velocity after the step is 0,
  whatever \<open>dt\<close> and the steering are.
\<close>

theorem heading_unchanged_at_zero_speed:
  "heading (fst (step car dt c)) =
     heading car + steering (fst (step car dt c)) * TURN_RATE * dt
       * min (\<bar>velocity (fst (step car dt c))\<bar> / MAX_SPEED) 1
   \<and> (velocity (fst (step car dt c)) = 0 \<longrightarrow> heading (fst (step car dt c)) = heading car)"
  using step_heading[of car dt c] by simp

theorem heading_unchanged_at_zero_speed_witness:
  "velocity (fst (step \<lparr>x = 360, y = 240, velocity = 1 / 30, heading = 0, steering = 1\<rparr>
       (1 / 60) (noControls(Right := True)))) = 0 \<and>
   steering (fst (step \<lparr>x = 360, y = 240, velocity = 1 / 30, heading = 0, steering = 1\<rparr>
       (1 / 60) (noControls(Right := True)))) = 1 \<and>
   heading (fst (step \<lparr>x = 360, y = 240, velocity = 1 / 30, heading = 0, steering = 1\<rparr>
       (1 / 60) (noControls(Right := True)))) = 0"
  using heading_unchanged_at_zero_speed[of
      "\<lparr>x = 360, y = 240, velocity = 1 / 30, heading = 0, steering = 1\<rparr>" "1 / 60"
      "noControls(Right := True)"]
  by (simp add: step_velocity_closed step_steering netAcceleration_closed intendedSteer_def
      noControls_def Let_def)

section \<open>A step of zero seconds\<close>

lemma updateSteering_zero: "updateSteering car 0 c = car"
  by (simp add: updateSteering_def)

lemma integrateHeading_zero: "integrateHeading car 0 = car"
  by (simp add: integrateHeading_def)

lemma integratePosition_zero: "integratePosition car 0 = car"
  by (simp add: integratePosition_def)

lemma integrateVelocity_zero:
  assumes "MAX_REVERSE_SPEED \<le> velocity car" "velocity car \<le> MAX_SPEED"
  shows "integrateVelocity car 0 c (netAcceleration c v) = car"
proof (cases "\<not> c Throttle \<and> \<not> c Reverse")
  case True
  then show ?thesis
    using snap_guard_false[of c v] assms by (simp add: integrateVelocity_def Let_def)
next
  case False
  then show ?thesis
    using assms by (auto simp add: integrateVelocity_def Let_def)
qed

lemma step_zero_in_range:
  assumes "MAX_REVERSE_SPEED \<le> velocity car" "velocity car \<le> MAX_SPEED"
    "24 \<le> x car" "x car \<le> CANVAS_WIDTH - 24" "24 \<le> y car" "y car \<le> CANVAS_HEIGHT - 24"
  shows "fst (step car 0 c) = car"
  using assms
  by (simp add: step_fst updateSteering_zero integrateVelocity_zero integrateHeading_zero
      integratePosition_zero clampPosition_id)

lemma step_in_range:
  "MAX_REVERSE_SPEED \<le> velocity (fst (step car dt c))"
  "velocity (fst (step car dt c)) \<le> MAX_SPEED"
  "24 \<le> x (fst (step car dt c))" "x (fst (step car dt c)) \<le> CANVAS_WIDTH - 24"
  "24 \<le> y (fst (step car dt c))" "y (fst (step car dt c)) \<le> CANVAS_HEIGHT - 24"
proof -
  show "MAX_REVERSE_SPEED \<le> velocity (fst (step car dt c))"
    "velocity (fst (step car dt c)) \<le> MAX_SPEED"
    by (simp_all add: step_velocity integrateVelocity_bounds)
  show "24 \<le> x (fst (step car dt c))" "x (fst (step car dt c)) \<le> CANVAS_WIDTH - 24"
    "24 \<le> y (fst (step car dt c))" "y (fst (step car dt c)) \<le> CANVAS_HEIGHT - 24"
    by (simp_all add: step_fst clampPosition_x clampPosition_y CANVAS_WIDTH_def
        CANVAS_HEIGHT_def)
qed

lemma step_zero_after_step: "fst (step (fst (step car dt c)) 0 c') = fst (step car dt c)"
  by (rule step_zero_in_range) (rule step_in_range)+

lemma drive_snoc:
  "drive (frames @ [(dt, c)]) car = fst (step (drive frames car) dt c)"
  by (induction frames arbitrary: car) auto

lemma step_zero_initial: "fst (step INITIAL_STATE 0 c) = INITIAL_STATE"
  by (rule step_zero_in_range) (simp_all add: INITIAL_STATE_def constants)

text \<open>
  Claim C7. For every car state the step can receive, that is the initial state driven
  through any list of frames, and for every combination of control flags, a step with
  \<open>dt = 0\<close> returns the state it was given: same position, velocity, heading and
  steering. The acceleration returned with it is the net acceleration of the flags and
  need not be zero.
\<close>

theorem zero_dt_identity:
  "fst (step (drive frames INITIAL_STATE) 0 c) = drive frames INITIAL_STATE \<and>
   snd (step (drive frames INITIAL_STATE) 0 c) =
     netAcceleration c (velocity (drive frames INITIAL_STATE))"
proof (cases frames rule: rev_cases)
  case Nil
  then show ?thesis
    by (simp add: step_zero_initial step_acceleration)
next
  case (snoc earlier frame)
  obtain dt c' where "frame = (dt, c')"
    by (cases frame)
  with snoc show ?thesis
    by (simp add: drive_snoc step_zero_after_step step_acceleration)
qed

theorem zero_dt_identity_witness:
  "fst (step (drive [(1 / 60, noControls(Throttle := True))] INITIAL_STATE) 0
      (noControls(Throttle := True)))
     = drive [(1 / 60, noControls(Throttle := True))] INITIAL_STATE \<and>
   velocity (drive [(1 / 60, noControls(Throttle := True))] INITIAL_STATE) = 1 / 10 \<and>
   snd (step (drive [(1 / 60, noControls(Throttle := True))] INITIAL_STATE) 0
      (noControls(Throttle := True))) = 6"
  using zero_dt_identity[of "[(1 / 60, noControls(Throttle := True))]"
      "noControls(Throttle := True)"]
  by (simp add: step_velocity_closed netAcceleration_closed noControls_def INITIAL_STATE_def
      Let_def)

section \<open>Coasting to rest\<close>

text \<open>
  Claim C1 says that a car released at velocity \<open>0.1\<close> comes to velocity exactly 0 and
  stays there, the snap-to-rest assignment being executed on the way. The code does
  otherwise. At sixty frames a second and with no control held the velocity runs
  \<open>1/10, 1/15, 1/30, 0, - 1/30, 0, - 1/30\<close>: it meets 0 only where the subtraction
  happens to land on it, the acceleration there is \<open>- 2\<close> and not below the threshold
  \<open>0.5\<close>, and the next frame pushes the car backwards again.
\<close>

theorem coasting_never_rests:
  "velocity (steps 3 (INITIAL_STATE\<lparr>velocity := 0.1\<rparr>) (1 / 60) noControls) = 0 \<and>
   snd (step (steps 3 (INITIAL_STATE\<lparr>velocity := 0.1\<rparr>) (1 / 60) noControls) (1 / 60)
     noControls) = - 2 \<and>
   velocity (steps 4 (INITIAL_STATE\<lparr>velocity := 0.1\<rparr>) (1 / 60) noControls) = - 1 / 30 \<and>
   velocity (steps 5 (INITIAL_STATE\<lparr>velocity := 0.1\<rparr>) (1 / 60) noControls) = 0 \<and>
   velocity (steps 6 (INITIAL_STATE\<lparr>velocity := 0.1\<rparr>) (1 / 60) noControls) = - 1 / 30"
proof -
  let ?v = "\<lambda>n. velocity (steps n (INITIAL_STATE\<lparr>velocity := 0.1\<rparr>) (1 / 60) noControls)"
  have v0: "?v 0 = 1 / 10"
    by simp
  have v1: "?v (Suc 0) = 1 / 15"
    by (simp only: idle_steps_velocity v0) simp
  have v2: "?v (Suc (Suc 0)) = 1 / 30"
    by (simp only: idle_steps_velocity v1) simp
  have v3: "?v (Suc (Suc (Suc 0))) = 0"
    by (simp only: idle_steps_velocity v2) simp
  have v4: "?v (Suc (Suc (Suc (Suc 0)))) = - 1 / 30"
    by (simp only: idle_steps_velocity v3) simp
  have v5: "?v (Suc (Suc (Suc (Suc (Suc 0))))) = 0"
    by (simp only: idle_steps_velocity v4) simp
  have v6: "?v (Suc (Suc (Suc (Suc (Suc (Suc 0)))))) = - 1 / 30"
    by (simp only: idle_steps_velocity v5) simp
  have a3: "snd (step (steps (Suc (Suc (Suc 0))) (INITIAL_STATE\<lparr>velocity := 0.1\<rparr>) (1 / 60)
      noControls) (1 / 60) noControls) = - 2"
    by (simp only: step_acceleration v3) (simp add: netAcceleration_closed noControls_def)
  have n: "(3::nat) = Suc (Suc (Suc 0))" "(4::nat) = Suc (Suc (Suc (Suc 0)))"
    "(5::nat) = Suc (Suc (Suc (Suc (Suc 0))))"
    "(6::nat) = Suc (Suc (Suc (Suc (Suc (Suc 0)))))"
    by simp_all
  show ?thesis
    by (simp only: n v3 v4 v5 v6 a3)
qed

section \<open>Published heading\<close>

text \<open>
  Claim C4 says that the published \<open>headingDeg\<close> lies in \<open>[0, 360)\<close> for every heading
  the car state can hold, also below \<open>- 2 * pi\<close>. The conversion adds 360 once before
  taking the remainder, and the remainder keeps the sign of its dividend: a heading of
  \<open>- 3 * pi\<close> is published as \<open>- 180\<close>.
\<close>

theorem headingDeg_negative:
  "headingDeg (publishedTelemetry (INITIAL_STATE\<lparr>heading := - 3 * pi\<rparr>) a) = - 180"
proof -
  have "\<lceil>- (1 / 2) :: real\<rceil> = 0"
    by (rule ceiling_unique) simp_all
  then show ?thesis
    by (simp add: publishedTelemetry_def js_rem_def)
qed

text \<open>
  Such a heading is reached from the initial state: one frame ten seconds after the
  previous one, with throttle and left held, turns the car by \<open>- 10 * pi\<close>, and the
  frame publishes \<open>- 90\<close>.
\<close>

lemma long_frame_publishes_negative_heading:
  "headingDeg (telemetry (renderFrame True 10000
     \<lparr>carStateRef = INITIAL_STATE, controlsRef = noControls(Throttle := True, Left := True),
      lastFrameRef = Some 0, lastPublishRef = 0,
      telemetry = \<lparr>speed = 0, headingDeg = 0, acceleration = 0\<rparr>,
      isActive = noControls(Throttle := True, Left := True)\<rparr>)) = - 90"
proof -
  have "\<lceil>- (17 / 4) :: real\<rceil> = - 4"
    by (rule ceiling_unique) simp_all
  then show ?thesis
    by (simp add: renderFrame_def rerender_def Let_def PUBLISH_INTERVAL_def
        publishedTelemetry_def js_rem_def step_heading step_steering step_velocity_closed netAcceleration_closed
        intendedSteer_def noControls_def INITIAL_STATE_def MAX_SPEED_def TURN_RATE_def
        STEERING_SMOOTHING_def)
qed

section \<open>Reset\<close>

lemma rerender_controls: "controlsRef (rerender sim) = isActive sim"
proof
  fix control
  show "controlsRef (rerender sim) control = isActive sim control"
    by (cases control) (simp_all add: rerender_def controlButtons_def applyControl_def)
qed

lemma rerender_fields:
  "carStateRef (rerender sim) = carStateRef sim"
  "lastFrameRef (rerender sim) = lastFrameRef sim"
  "lastPublishRef (rerender sim) = lastPublishRef sim"
  "telemetry (rerender sim) = telemetry sim"
  "isActive (rerender sim) = isActive sim"
  by (simp_all add: rerender_def)

text \<open>
  For every state: the reset writes the initial car and clears the timestamp, and after
  the rendering it causes the flags are those of the buttons.
\<close>

lemma reset_car_and_timestamp:
  "carStateRef (resetSimulation sim) = INITIAL_STATE \<and>
   carStateRef (resetSimulation sim)
     = \<lparr>x = 360, y = 240, velocity = 0, heading = - pi / 2, steering = 0\<rparr> \<and>
   lastFrameRef (resetSimulation sim) = None"
  by (simp add: resetSimulation_def rerender_fields INITIAL_STATE_def constants)

lemma reset_controls: "controlsRef (resetSimulation sim) = isActive sim"
  by (simp add: resetSimulation_def rerender_controls)

text \<open>
  Claim C9 says that a reset, after any sequence of steps, sets the car state to its
  initial values and clears the timestamp of the last frame, and leaves every control
  flag unchanged, so that a held control stays held. The function \<open>resetSimulation\<close>
  itself does not touch the flags, but its \<open>setTelemetry\<close> makes the component render
  again and the buttons' effects then overwrite them. After a frame, the key W going
  down and a second frame (throttle true, no button pressed, velocity \<open>0.096\<close>), a reset
  restores the car and the timestamp and leaves the throttle flag false.
\<close>

theorem reset_drops_held_key:
  "controlsRef heldKeySession Throttle \<and>
   velocity (carStateRef heldKeySession) = 12 / 125 \<and>
   lastFrameRef heldKeySession = Some 32 \<and>
   \<not> controlsRef (resetSimulation heldKeySession) Throttle \<and>
   carStateRef (resetSimulation heldKeySession) = INITIAL_STATE \<and>
   lastFrameRef (resetSimulation heldKeySession) = None"
proof -
  have c: "controlsRef heldKeySession = noControls(Throttle := True)"
    by (simp add: heldKeySession_def renderFrame_def keyEvent_def initialSimulation_def
        Let_def PUBLISH_INTERVAL_def handleKey_def KEY_MAP_def applyControl_def)
  have a: "isActive heldKeySession = noControls"
    by (simp add: heldKeySession_def renderFrame_def keyEvent_def initialSimulation_def
        Let_def PUBLISH_INTERVAL_def)
  have t: "lastFrameRef heldKeySession = Some 32"
    by (simp add: heldKeySession_def renderFrame_def keyEvent_def initialSimulation_def
        Let_def PUBLISH_INTERVAL_def)
  have v: "velocity (carStateRef heldKeySession) = 12 / 125"
    by (simp add: heldKeySession_def renderFrame_def keyEvent_def initialSimulation_def
        Let_def PUBLISH_INTERVAL_def handleKey_def KEY_MAP_def applyControl_def
        step_velocity_closed netAcceleration_closed step_zero_initial INITIAL_STATE_def
        noControls_def)
  show ?thesis
    by (simp add: c a t v reset_controls reset_car_and_timestamp noControls_def)
qed

section \<open>Keys and control flags\<close>

lemma handleKey_other:
  "KEY_MAP code \<noteq> Some control \<Longrightarrow> handleKey code d controls control = controls control"
  by (simp add: handleKey_def applyControl_def split: option.splits)

lemma handleKey_same:
  "KEY_MAP code = Some control \<Longrightarrow> handleKey code d controls control = d"
  by (simp add: handleKey_def applyControl_def)

text \<open>
  Claim C3, as stated: after every sequence of key events each control flag is the
  logical OR over the held keys mapped to it. It fails: \<open>applyControl\<close> stores the
  event's direction and nothing records which keys are held. With ArrowUp and KeyW both
  down, releasing ArrowUp clears the throttle flag while KeyW is still held.
\<close>

theorem release_clears_shared_flag:
  "handleKeys [(''ArrowUp'', True), (''KeyW'', True), (''ArrowUp'', False)] noControls Throttle
   \<noteq> orOverHeld
       (heldKeys [(''ArrowUp'', True), (''KeyW'', True), (''ArrowUp'', False)] []) Throttle"
  by (simp add: handleKey_def applyControl_def KEY_MAP_def orOverHeld_def noControls_def)

text \<open>
  Claim C3, amended. After every sequence of key-down and key-up events each control
  flag holds the direction of the latest event of any key mapped to that control (true
  for key-down, false for key-up), and its earlier value when no such key occurred. So
  when two keys mapped to one control are held and one is released, the flag becomes
  false although the other key is still held.
\<close>

theorem flags_follow_last_event:
  "handleKeys events controls control =
     (case lastEventFor control events of None \<Rightarrow> controls control | Some d \<Rightarrow> d)"
proof (induction events arbitrary: controls)
  case Nil
  then show ?case
    by simp
next
  case (Cons e events)
  obtain code d where e: "e = (code, d)"
    by (cases e)
  show ?case
    by (cases "KEY_MAP code = Some control")
       (simp_all add: e Cons.IH handleKey_other handleKey_same split: option.splits)
qed

end
